theory Spec2Isabelle
  imports Main "HOL-Library.Sublist"
begin

section \<open>Knockout match dialog: the prediction form\<close>

subsection \<open>Form values\<close>

text \<open>
  The values a score field of the form can hold. The regular-time fields start as
  \<^verbatim>\<open>userPrediction?.homeScore ?? undefined\<close> and are written by
  \<^verbatim>\<open>setValueAs: (v) => v === "" || isNaN(v) ? undefined : Number(v)\<close>; the extra-time
  fields use \<^verbatim>\<open>null\<close> in place of \<^verbatim>\<open>undefined\<close>. \<^verbatim>\<open>isValidNumber\<close> is written
  for any value and tests for \<^verbatim>\<open>NaN\<close> and \<^verbatim>\<open>null\<close> as well, so all four are kept.
  The numbers themselves are any linearly ordered type \<open>'n\<close> (the form only
  compares them); the examples use \<open>int\<close>.
\<close>

datatype 'n jsval = JUndefined | JNull | JNaN | JNum 'n

text \<open>\<^verbatim>\<open>typeof val\<close>.\<close>

fun typeof :: "'n jsval \<Rightarrow> string" where
  "typeof JUndefined = ''undefined''"
| "typeof JNull = ''object''"
| "typeof JNaN = ''number''"
| "typeof (JNum n) = ''number''"

text \<open>\<^verbatim>\<open>isNaN(val)\<close>: the argument is converted to a number first, so \<^verbatim>\<open>undefined\<close>
  gives true and \<^verbatim>\<open>null\<close> (which converts to 0) gives false.\<close>

fun isNaN :: "'n jsval \<Rightarrow> bool" where
  "isNaN JUndefined = True"
| "isNaN JNull = False"
| "isNaN JNaN = True"
| "isNaN (JNum n) = False"

text \<open>\<^verbatim>\<open>a === b\<close>: \<^verbatim>\<open>NaN\<close> equals nothing, itself included.\<close>

fun strictEq :: "'n jsval \<Rightarrow> 'n jsval \<Rightarrow> bool" where
  "strictEq JUndefined JUndefined = True"
| "strictEq JNull JNull = True"
| "strictEq (JNum a) (JNum b) = (a = b)"
| "strictEq _ _ = False"

text \<open>\<^verbatim>\<open>a < b\<close>: both sides are converted to numbers (\<^verbatim>\<open>null\<close> to 0, \<^verbatim>\<open>undefined\<close> to
  \<^verbatim>\<open>NaN\<close>), and a comparison with \<^verbatim>\<open>NaN\<close> is false.\<close>

fun toNumber :: "('n::zero) jsval \<Rightarrow> 'n option" where
  "toNumber JUndefined = None"
| "toNumber JNull = Some 0"
| "toNumber JNaN = None"
| "toNumber (JNum n) = Some n"

definition jsLess :: "('n::{linorder,zero}) jsval \<Rightarrow> 'n jsval \<Rightarrow> bool" where
  "jsLess a b =
     (case toNumber a of
        None \<Rightarrow> False
      | Some x \<Rightarrow> (case toNumber b of None \<Rightarrow> False | Some y \<Rightarrow> x < y))"

datatype winner = Home | Away

text \<open>The five watched fields of \<^verbatim>\<open>KnockoutMatchPredictionFormData\<close>. The penalty field
  is \<^verbatim>\<open>"home" | "away" | null\<close>: its default is \<^verbatim>\<open>null\<close> unless the stored prediction has
  a truthy winner, and the two buttons set \<^verbatim>\<open>"home"\<close> and \<^verbatim>\<open>"away"\<close>.\<close>

record 'n draft =
  homeScore :: "'n jsval"
  awayScore :: "'n jsval"
  homeScoreET :: "'n jsval"
  awayScoreET :: "'n jsval"
  penaltiesWinner :: "winner option"

text \<open>Shorthand for writing a draft down.\<close>

abbreviation (input) draftOf ::
  "'n jsval \<Rightarrow> 'n jsval \<Rightarrow> 'n jsval \<Rightarrow> 'n jsval \<Rightarrow> winner option \<Rightarrow> 'n draft" where
  "draftOf h a he ae w \<equiv>
     \<lparr>homeScore = h, awayScore = a, homeScoreET = he, awayScoreET = ae, penaltiesWinner = w\<rparr>"

subsection \<open>Derived flags of \<^verbatim>\<open>MatchContent\<close>\<close>

definition isValidNumber :: "'n jsval \<Rightarrow> bool" where
  "isValidNumber val \<longleftrightarrow> typeof val = ''number'' \<and> \<not> isNaN val \<and> \<not> strictEq val JNull"

definition hasValidRegularTimeScores :: "'n draft \<Rightarrow> bool" where
  "hasValidRegularTimeScores d \<longleftrightarrow> isValidNumber (homeScore d) \<and> isValidNumber (awayScore d)"

definition isTied :: "'n draft \<Rightarrow> bool" where
  "isTied d \<longleftrightarrow> hasValidRegularTimeScores d \<and> strictEq (homeScore d) (awayScore d)"

definition hasValidETScores :: "'n draft \<Rightarrow> bool" where
  "hasValidETScores d \<longleftrightarrow> isValidNumber (homeScoreET d) \<and> isValidNumber (awayScoreET d)"

definition isTiedInET :: "'n draft \<Rightarrow> bool" where
  "isTiedInET d \<longleftrightarrow> hasValidETScores d \<and> strictEq (homeScoreET d) (awayScoreET d)"

definition showPenalties :: "'n draft \<Rightarrow> bool" where
  "showPenalties d \<longleftrightarrow> isTied d \<and> isTiedInET d"

text \<open>\<^verbatim>\<open>!penaltiesWinner\<close> and \<^verbatim>\<open>penaltiesWinner !== null\<close> on a value of type
  \<^verbatim>\<open>"home" | "away" | null\<close>: both strings are truthy.\<close>

definition falsy :: "winner option \<Rightarrow> bool" where
  "falsy w = (case w of None \<Rightarrow> True | Some _ \<Rightarrow> False)"

definition notNull :: "winner option \<Rightarrow> bool" where
  "notNull w = (case w of None \<Rightarrow> False | Some _ \<Rightarrow> True)"

text \<open>\<^verbatim>\<open>isFormIncomplete\<close>, rule by rule. Each \<^verbatim>\<open>return true\<close> of the source is one
  branch of the chain, in source order; a test nested in \<^verbatim>\<open>if (isTied)\<close> or
  \<^verbatim>\<open>if (!isTied)\<close> carries that condition with it.\<close>

definition isFormIncomplete :: "('n::{linorder,zero}) draft \<Rightarrow> bool" where
  "isFormIncomplete d =
     (if \<not> hasValidRegularTimeScores d then True
      else if isTied d \<and> \<not> hasValidETScores d then True
      else if isTied d \<and> hasValidETScores d \<and>
              (jsLess (homeScoreET d) (homeScore d) \<or> jsLess (awayScoreET d) (awayScore d))
        then True
      else if isTied d \<and> isTiedInET d \<and> falsy (penaltiesWinner d) then True
      else if isTied d \<and> \<not> isTiedInET d \<and> notNull (penaltiesWinner d) then True
      else if \<not> isTied d \<and>
              (\<not> strictEq (homeScoreET d) JNull \<or> \<not> strictEq (awayScoreET d) JNull \<or>
               notNull (penaltiesWinner d))
        then True
      else False)"

text \<open>What \<^verbatim>\<open>MatchContent\<close> renders of the form: the extra-time block under
  \<^verbatim>\<open>{isTied && ...}\<close>, the penalty block under \<^verbatim>\<open>{showPenalties && ...}\<close>, and the
  submit button's \<^verbatim>\<open>disabled\<close> attribute.\<close>

record formView =
  extraTimeFields :: bool
  penaltyField :: bool
  submitDisabled :: bool

definition renderForm :: "('n::{linorder,zero}) draft \<Rightarrow> bool \<Rightarrow> bool \<Rightarrow> formView" where
  "renderForm d isSubmitting isSaving =
     \<lparr> extraTimeFields = isTied d,
       penaltyField = showPenalties d,
       submitDisabled = (isFormIncomplete d \<or> isSubmitting \<or> isSaving) \<rparr>"

subsection \<open>The six states of the specification\<close>

text \<open>The decided states as the specification words them: B (decided in regular time),
  D (decided in extra time) and F (resolved by penalties).\<close>

definition stateB :: "'n draft \<Rightarrow> bool" where
  "stateB d \<longleftrightarrow>
     (\<exists>h a. homeScore d = JNum h \<and> awayScore d = JNum a \<and> h \<noteq> a) \<and>
     homeScoreET d = JNull \<and> awayScoreET d = JNull \<and> penaltiesWinner d = None"

definition stateD :: "('n::linorder) draft \<Rightarrow> bool" where
  "stateD d \<longleftrightarrow>
     (\<exists>h a he ae. homeScore d = JNum h \<and> awayScore d = JNum a \<and> h = a \<and>
        homeScoreET d = JNum he \<and> awayScoreET d = JNum ae \<and>
        h \<le> he \<and> a \<le> ae \<and> he \<noteq> ae) \<and>
     penaltiesWinner d = None"

definition stateF :: "('n::linorder) draft \<Rightarrow> bool" where
  "stateF d \<longleftrightarrow>
     (\<exists>h a he ae. homeScore d = JNum h \<and> awayScore d = JNum a \<and> h = a \<and>
        homeScoreET d = JNum he \<and> awayScoreET d = JNum ae \<and> he = ae \<and>
        h \<le> he \<and> a \<le> ae) \<and>
     (\<exists>w. penaltiesWinner d = Some w)"

subsection \<open>Writing to the form\<close>

text \<open>
  What reaches a \<^verbatim>\<open>setValueAs\<close> function: the text of the input (\<open>Some n\<close> for a number,
  \<open>None\<close> for an empty input, which is also what a number input reports for text that is
  not a number), or a value handed to the form by the program.
\<close>

datatype 'n raw = Typed "'n option" | Value "'n jsval"

text \<open>The regular-time inputs:
  \<^verbatim>\<open>setValueAs: (v) => v === "" || isNaN(v) ? undefined : Number(v)\<close>.
  \<^verbatim>\<open>isNaN(null)\<close> is false and \<^verbatim>\<open>Number(null)\<close> is 0.\<close>

fun setValueAsRegular :: "('n::zero) raw \<Rightarrow> 'n jsval" where
  "setValueAsRegular (Typed None) = JUndefined"
| "setValueAsRegular (Typed (Some n)) = JNum n"
| "setValueAsRegular (Value JUndefined) = JUndefined"
| "setValueAsRegular (Value JNull) = JNum 0"
| "setValueAsRegular (Value JNaN) = JUndefined"
| "setValueAsRegular (Value (JNum n)) = JNum n"

text \<open>The extra-time inputs:
  \<^verbatim>\<open>setValueAs: (v) => v === "" || isNaN(v) ? null : Number(v)\<close>.\<close>

fun setValueAsET :: "('n::zero) raw \<Rightarrow> 'n jsval" where
  "setValueAsET (Typed None) = JNull"
| "setValueAsET (Typed (Some n)) = JNum n"
| "setValueAsET (Value JUndefined) = JNull"
| "setValueAsET (Value JNull) = JNum 0"
| "setValueAsET (Value JNaN) = JNull"
| "setValueAsET (Value (JNum n)) = JNum n"

text \<open>
  react-hook-form keeps an input registered once it has been drawn (\<^verbatim>\<open>shouldUnregister\<close>
  is not set). A value written to a registered input, by \<^verbatim>\<open>form.setValue\<close> or when the
  input is attached, is stored as its \<^verbatim>\<open>setValueAs\<close> makes it, except \<^verbatim>\<open>undefined\<close>,
  which is stored as it is. A value written to a field with no registered input is
  stored as it is; the penalty field never has an input.
\<close>

definition fieldValueAs :: "('n raw \<Rightarrow> 'n jsval) \<Rightarrow> 'n jsval \<Rightarrow> 'n jsval" where
  "fieldValueAs setValueAs v = (if v = JUndefined then JUndefined else setValueAs (Value v))"

definition setValue :: "bool \<Rightarrow> ('n raw \<Rightarrow> 'n jsval) \<Rightarrow> 'n jsval \<Rightarrow> 'n jsval" where
  "setValue registered setValueAs v = (if registered then fieldValueAs setValueAs v else v)"

text \<open>Attaching a newly drawn input: the value the form holds for it goes through
  \<^verbatim>\<open>setValueAs\<close>; when the form holds \<^verbatim>\<open>undefined\<close>, the text of the (still empty) input is
  read instead.\<close>

definition attach :: "('n raw \<Rightarrow> 'n jsval) \<Rightarrow> 'n jsval \<Rightarrow> 'n jsval" where
  "attach setValueAs current =
     (if current = JUndefined then setValueAs (Typed None) else fieldValueAs setValueAs current)"

subsection \<open>The reset effects and the render cycle\<close>

text \<open>
  \<^verbatim>\<open>MatchContent\<close> has three \<^verbatim>\<open>useEffect\<close> hooks. An effect belongs to a render: its
  condition reads the flags computed by that render (\<open>d\<close>, the watched values the render
  saw), while \<^verbatim>\<open>form.setValue\<close> and \<^verbatim>\<open>form.getValues\<close> act on the live form values
  (\<open>f\<close>), which the attaching of inputs and earlier effects of the same commit may
  already have changed. \<open>registered\<close> tells whether the extra-time inputs have been
  drawn before.
\<close>

definition resetETAndPenalties :: "bool \<Rightarrow> ('n::zero) draft \<Rightarrow> 'n draft \<Rightarrow> 'n draft" where
  "resetETAndPenalties registered d f =
     (if hasValidRegularTimeScores d \<and> \<not> isTied d
      then f\<lparr>homeScoreET := setValue registered setValueAsET JNull,
             awayScoreET := setValue registered setValueAsET JNull,
             penaltiesWinner := None\<rparr>
      else f)"

definition resetPenaltiesAfterET :: "'n draft \<Rightarrow> 'n draft \<Rightarrow> 'n draft" where
  "resetPenaltiesAfterET d f =
     (if hasValidETScores d \<and> \<not> isTiedInET d then f\<lparr>penaltiesWinner := None\<rparr> else f)"

definition clearHiddenPenalties :: "'n draft \<Rightarrow> 'n draft \<Rightarrow> 'n draft" where
  "clearHiddenPenalties d f =
     (if \<not> showPenalties d \<and> notNull (penaltiesWinner f)
      then f\<lparr>penaltiesWinner := None\<rparr>
      else f)"

text \<open>The dependency arrays, without the \<^verbatim>\<open>form\<close> object, which \<^verbatim>\<open>useForm\<close> returns
  unchanged on every render.\<close>

definition depsResetET :: "'n draft \<Rightarrow> bool list" where
  "depsResetET d = [hasValidRegularTimeScores d, isTied d]"

definition depsResetPenalties :: "'n draft \<Rightarrow> bool list" where
  "depsResetPenalties d = [hasValidETScores d, isTiedInET d]"

definition depsClearHidden :: "'n draft \<Rightarrow> bool list" where
  "depsClearHidden d = [showPenalties d]"

text \<open>React runs an effect after the first render, and after a later render when a
  dependency differs from the previous render's.\<close>

definition depsChanged :: "'n draft option \<Rightarrow> 'n draft \<Rightarrow> ('n draft \<Rightarrow> bool list) \<Rightarrow> bool" where
  "depsChanged prev d deps = (case prev of None \<Rightarrow> True | Some p \<Rightarrow> deps p \<noteq> deps d)"

text \<open>The effects of one commit, in source order. \<open>prev\<close> is the draft the previous
  render saw (\<open>None\<close> on mount), \<open>d\<close> the draft this render sees and \<open>f\<close> the live form
  when the effects start; the result is the form afterwards.\<close>

definition runEffects ::
  "bool \<Rightarrow> ('n::zero) draft option \<Rightarrow> 'n draft \<Rightarrow> 'n draft \<Rightarrow> 'n draft" where
  "runEffects registered prev d f =
     (let f1 = (if depsChanged prev d depsResetET then resetETAndPenalties registered d f else f);
          f2 = (if depsChanged prev d depsResetPenalties then resetPenaltiesAfterET d f1 else f1);
          f3 = (if depsChanged prev d depsClearHidden then clearHiddenPenalties d f2 else f2)
      in f3)"

text \<open>The inputs a render attaches: the regular-time inputs on the first render, the
  extra-time inputs whenever the render draws them and the previous one did not.\<close>

definition extraTimeInputsNew :: "'n draft option \<Rightarrow> 'n draft \<Rightarrow> bool" where
  "extraTimeInputsNew prev d \<longleftrightarrow> isTied d \<and> (case prev of None \<Rightarrow> True | Some p \<Rightarrow> \<not> isTied p)"

definition attachInputs :: "('n::zero) draft option \<Rightarrow> 'n draft \<Rightarrow> 'n draft \<Rightarrow> 'n draft" where
  "attachInputs prev d f =
     (let f1 = (if prev = None
                then f\<lparr>homeScore := attach setValueAsRegular (homeScore f),
                       awayScore := attach setValueAsRegular (awayScore f)\<rparr>
                else f);
          f2 = (if extraTimeInputsNew prev d
                then f1\<lparr>homeScoreET := attach setValueAsET (homeScoreET f1),
                        awayScoreET := attach setValueAsET (awayScoreET f1)\<rparr>
                else f1)
      in f2)"

text \<open>The dialog between events: the live form values, the draft the last render saw,
  and whether the extra-time inputs have been drawn so far.\<close>

record 'n dialog =
  form :: "'n draft"
  lastRender :: "'n draft option"
  extraTimeRegistered :: bool

text \<open>One render and its commit: the render sees the form as it is, the new inputs are
  attached, then the effects run.\<close>

definition render :: "('n::zero) dialog \<Rightarrow> 'n dialog" where
  "render s =
     \<lparr> form = runEffects (extraTimeRegistered s \<or> isTied (form s)) (lastRender s) (form s)
                (attachInputs (lastRender s) (form s) (form s)),
       lastRender = Some (form s),
       extraTimeRegistered = (extraTimeRegistered s \<or> isTied (form s)) \<rparr>"

text \<open>Mounting with the default values taken from the stored prediction.\<close>

definition mount :: "('n::zero) draft \<Rightarrow> 'n dialog" where
  "mount d0 = render \<lparr> form = d0, lastRender = None, extraTimeRegistered = False \<rparr>"

text \<open>What the user can do to the form: type into a score input, \<open>Some n\<close> for a number
  and \<open>None\<close> for an empty input, or press a penalty button.\<close>

datatype 'n event =
    TypeHomeScore "'n option"
  | TypeAwayScore "'n option"
  | TypeHomeScoreET "'n option"
  | TypeAwayScoreET "'n option"
  | ClickPenalties winner

fun applyEvent :: "('n::zero) event \<Rightarrow> 'n draft \<Rightarrow> 'n draft" where
  "applyEvent (TypeHomeScore v) f = f\<lparr>homeScore := setValueAsRegular (Typed v)\<rparr>"
| "applyEvent (TypeAwayScore v) f = f\<lparr>awayScore := setValueAsRegular (Typed v)\<rparr>"
| "applyEvent (TypeHomeScoreET v) f = f\<lparr>homeScoreET := setValueAsET (Typed v)\<rparr>"
| "applyEvent (TypeAwayScoreET v) f = f\<lparr>awayScoreET := setValueAsET (Typed v)\<rparr>"
| "applyEvent (ClickPenalties w) f = f\<lparr>penaltiesWinner := Some w\<rparr>"

text \<open>A control can be used only if the last render drew it: the extra-time inputs
  under \<^verbatim>\<open>isTied\<close>, the penalty buttons under \<^verbatim>\<open>showPenalties\<close>.\<close>

fun drawn :: "'n draft \<Rightarrow> 'n event \<Rightarrow> bool" where
  "drawn p (TypeHomeScore v) = True"
| "drawn p (TypeAwayScore v) = True"
| "drawn p (TypeHomeScoreET v) = isTied p"
| "drawn p (TypeAwayScoreET v) = isTied p"
| "drawn p (ClickPenalties w) = showPenalties p"

definition enabled :: "'n dialog \<Rightarrow> 'n event \<Rightarrow> bool" where
  "enabled s e = (case lastRender s of None \<Rightarrow> False | Some p \<Rightarrow> drawn p e)"

text \<open>An event writes its field and the watched values make the component render
  again; an event on a control that is not drawn does not happen.\<close>

definition dispatch :: "('n::zero) dialog \<Rightarrow> 'n event \<Rightarrow> 'n dialog" where
  "dispatch s e = (if enabled s e then render (s\<lparr>form := applyEvent e (form s)\<rparr>) else s)"

text \<open>The dialogs that can arise: mounted on any default values, then any sequence of
  events and further renders.\<close>

inductive reachable :: "('n::zero) dialog \<Rightarrow> bool" where
  mounted: "reachable (mount d0)"
| rerendered: "reachable s \<Longrightarrow> reachable (render s)"
| dispatched: "reachable s \<Longrightarrow> reachable (dispatch s e)"

text \<open>The invariant behind the penalty reset: a penalty winner is held only while the
  last render drew the penalty buttons.\<close>

definition penaltiesDrawn :: "'n dialog \<Rightarrow> bool" where
  "penaltiesDrawn s \<longleftrightarrow>
     (\<exists>p. lastRender s = Some p \<and> (penaltiesWinner (form s) \<noteq> None \<longrightarrow> showPenalties p))"

subsection \<open>Submitting the form\<close>

text \<open>The whole form, \<^verbatim>\<open>KnockoutMatchPredictionFormData\<close>: the watched fields and the
  three identifiers of the default values.\<close>

record 'n formData = "'n draft" +
  matchId :: string
  homeTeamId :: string
  awayTeamId :: string

text \<open>\<^verbatim>\<open>x ?? null\<close>.\<close>

definition orNull :: "'n jsval \<Rightarrow> 'n jsval" where
  "orNull v = (case v of JUndefined \<Rightarrow> JNull | _ \<Rightarrow> v)"

text \<open>The \<^verbatim>\<open>MatchPrediction\<close> entity built from the submitted data has the same eight
  fields.\<close>

type_synonym 'n matchPrediction = "'n formData"

definition toMatchPrediction :: "'n formData \<Rightarrow> 'n matchPrediction" where
  "toMatchPrediction data =
     \<lparr> homeScore = homeScore data,
       awayScore = awayScore data,
       homeScoreET = orNull (homeScoreET data),
       awayScoreET = orNull (awayScoreET data),
       penaltiesWinner = penaltiesWinner data,
       matchId = matchId data,
       homeTeamId = homeTeamId data,
       awayTeamId = awayTeamId data \<rparr>"

text \<open>What a rejected promise carries: an \<^verbatim>\<open>Error\<close> instance with its message, or any
  other value.\<close>

datatype thrown = ErrorInstance string | OtherValue

text \<open>What awaiting \<^verbatim>\<open>onSave(...)\<close> comes to: the promise resolves, rejects, or never
  settles.\<close>

datatype saveOutcome = Resolved | Rejected thrown | Pending

text \<open>What \<^verbatim>\<open>onSubmit\<close> does to the world, in order.\<close>

datatype 'n effect =
    ToastError string string
  | ToastSuccess string string
  | OnSave string "'n matchPrediction list"
  | OnClose
  | ConsoleError string thrown

record 'n matchContentProps =
  homeTeamName :: string
  awayTeamName :: string
  predictionId :: "string option"
  onSave :: "string \<Rightarrow> 'n matchPrediction list \<Rightarrow> saveOutcome"

text \<open>The Spanish notices, as UTF-8 bytes.\<close>

definition predictionNotFound :: string where
  "predictionNotFound =
     ''No se encontr'' @ [CHR 0xC3, CHR 0xB3] @ '' la predicci'' @ [CHR 0xC3, CHR 0xB3] @
     ''n. Intenta recargar la p'' @ [CHR 0xC3, CHR 0xA1] @ ''gina.''"

definition predictionSaved :: string where
  "predictionSaved = ''Predicci'' @ [CHR 0xC3, CHR 0xB3] @ ''n guardada''"

definition couldNotSave :: string where
  "couldNotSave = ''No se pudo guardar la predicci'' @ [CHR 0xC3, CHR 0xB3] @ ''n''"

text \<open>\<^verbatim>\<open>!predictionId\<close> on \<^verbatim>\<open>string | null\<close>: true for \<^verbatim>\<open>null\<close> and for the empty
  string.\<close>

definition noPredictionId :: "string option \<Rightarrow> bool" where
  "noPredictionId i = (case i of None \<Rightarrow> True | Some s \<Rightarrow> s = [])"

text \<open>\<^verbatim>\<open>error instanceof Error ? error.message : <fallback text>\<close>.\<close>

definition errorDescription :: "thrown \<Rightarrow> string" where
  "errorDescription err = (case err of ErrorInstance m \<Rightarrow> m | OtherValue \<Rightarrow> couldNotSave)"

definition onSubmit :: "'n matchContentProps \<Rightarrow> 'n formData \<Rightarrow> 'n effect list" where
  "onSubmit props data =
     (if noPredictionId (predictionId props)
      then [ToastError ''Error'' predictionNotFound]
      else
        (let matchPrediction = toMatchPrediction data
         in OnSave ''ROUND_OF_32'' [matchPrediction] #
            (case onSave props ''ROUND_OF_32'' [matchPrediction] of
               Resolved \<Rightarrow>
                 [ToastSuccess predictionSaved (homeTeamName props @ '' vs '' @ awayTeamName props),
                  OnClose]
             | Rejected err \<Rightarrow>
                 [ConsoleError ''[KnockoutMatchDialog] Error saving prediction:'' err,
                  ToastError ''Error al guardar'' (errorDescription err)]
             | Pending \<Rightarrow> [])))"

section \<open>Knockout bracket: the winner of a stored prediction\<close>

text \<open>The fields of \<^verbatim>\<open>UserMatchPrediction\<close> that the bracket and the predictions page
  read: the scores are numbers, the extra-time scores \<^verbatim>\<open>number | null\<close>, the penalty winner
  and the identifier \<^verbatim>\<open>string | null\<close>.\<close>

record 'n userMatchPrediction =
  up_id :: "string option"
  up_homeScore :: 'n
  up_awayScore :: 'n
  up_homeScoreET :: "'n option"
  up_awayScoreET :: "'n option"
  up_penaltiesWinner :: "string option"

text \<open>\<^verbatim>\<open>if (prediction.penaltiesWinner)\<close>: a string is truthy unless it is empty.\<close>

definition truthyString :: "string option \<Rightarrow> bool" where
  "truthyString w = (case w of None \<Rightarrow> False | Some s \<Rightarrow> s \<noteq> [])"

definition getMatchWinner :: "('n::linorder) userMatchPrediction option \<Rightarrow> string option" where
  "getMatchWinner prediction =
     (case prediction of
        None \<Rightarrow> None
      | Some p \<Rightarrow>
          if truthyString (up_penaltiesWinner p) then up_penaltiesWinner p
          else
            (case (up_homeScoreET p, up_awayScoreET p) of
               (Some homeET, Some awayET) \<Rightarrow>
                 if homeET > awayET then Some ''home''
                 else if awayET > homeET then Some ''away''
                 else Some ''draw''
             | _ \<Rightarrow>
                 if up_homeScore p > up_awayScore p then Some ''home''
                 else if up_awayScore p > up_homeScore p then Some ''away''
                 else Some ''draw''))"

text \<open>The lookup as the specification words it: the side with the greater score.\<close>

definition greaterSide :: "('n::linorder) \<Rightarrow> 'n \<Rightarrow> string" where
  "greaterSide home away = (if away < home then ''home'' else if home < away then ''away'' else ''draw'')"

section \<open>Predictions page\<close>

record 'n matchWithPrediction =
  userPrediction :: "'n userMatchPrediction"

record 'k knockouts =
  roundOf32 :: "'k list"

text \<open>The body of the knockout tab: the locked placeholder with its progress line, the
  bracket, or the notice that the pairings are not known yet.\<close>

datatype knockoutPanel = LockedProgress nat nat | KnockoutBracket | PairingsPending

record pageView =
  knockoutTabDisabled :: bool
  awardsTabDisabled :: bool
  knockoutContent :: knockoutPanel

definition hasPrediction :: "'n matchWithPrediction \<Rightarrow> bool" where
  "hasPrediction m \<longleftrightarrow> up_id (userPrediction m) \<noteq> None"

definition allGroupPredictionsCompleted :: "'n matchWithPrediction list \<Rightarrow> bool" where
  "allGroupPredictionsCompleted matches = list_all hasPrediction matches"

definition totalMatches :: "'n matchWithPrediction list \<Rightarrow> nat" where
  "totalMatches matches = length matches"

definition completedMatches :: "'n matchWithPrediction list \<Rightarrow> nat" where
  "completedMatches matches = length (filter hasPrediction matches)"

definition predictionsPageContent ::
  "'n matchWithPrediction list \<Rightarrow> 'k knockouts option \<Rightarrow> pageView" where
  "predictionsPageContent matches ko =
     \<lparr> knockoutTabDisabled = (\<not> allGroupPredictionsCompleted matches),
       awardsTabDisabled = (\<not> allGroupPredictionsCompleted matches),
       knockoutContent =
         (if \<not> allGroupPredictionsCompleted matches
          then LockedProgress (completedMatches matches) (totalMatches matches)
          else (case ko of
                  None \<Rightarrow> PairingsPending
                | Some k \<Rightarrow> if length (roundOf32 k) > 0 then KnockoutBracket else PairingsPending)) \<rparr>"

section \<open>Route guard\<close>

subsection \<open>Parsed JSON and its truthiness\<close>

text \<open>A value returned by \<^verbatim>\<open>JSON.parse\<close>. Of a number only its being zero is observed,
  so the number type is left open.\<close>

datatype 'n json =
    JsonNull
  | JsonBool bool
  | JsonNumber 'n
  | JsonString string
  | JsonArray "'n json list"
  | JsonObject "(string \<times> 'n json) list"

text \<open>Reading a property: \<open>None\<close> is \<^verbatim>\<open>undefined\<close>. The three keys the guard reads
  (\<^verbatim>\<open>state\<close>, \<^verbatim>\<open>userId\<close>, \<^verbatim>\<open>accessToken\<close>) are not built-in properties of strings,
  numbers, booleans or arrays, so only an object can have them.\<close>

fun getProperty :: "'n json \<Rightarrow> string \<Rightarrow> 'n json option" where
  "getProperty (JsonObject members) key = map_of members key"
| "getProperty _ key = None"

text \<open>\<^verbatim>\<open>v?.key\<close>: \<^verbatim>\<open>undefined\<close> when \<open>v\<close> is \<^verbatim>\<open>undefined\<close> or \<^verbatim>\<open>null\<close>.\<close>

fun optionalChain :: "'n json option \<Rightarrow> string \<Rightarrow> 'n json option" where
  "optionalChain None key = None"
| "optionalChain (Some JsonNull) key = None"
| "optionalChain (Some v) key = getProperty v key"

fun truthy :: "('n::zero) json option \<Rightarrow> bool" where
  "truthy None = False"
| "truthy (Some JsonNull) = False"
| "truthy (Some (JsonBool b)) = b"
| "truthy (Some (JsonNumber n)) = (n \<noteq> 0)"
| "truthy (Some (JsonString s)) = (s \<noteq> [])"
| "truthy (Some (JsonArray xs)) = True"
| "truthy (Some (JsonObject members)) = True"

subsection \<open>Requests and responses\<close>

text \<open>Of a request the guard reads \<^verbatim>\<open>request.nextUrl.pathname\<close>, the cookies and
  \<^verbatim>\<open>request.url\<close> as the base of the redirect, of which an absolute path keeps the
  origin only.\<close>

record request =
  pathname :: string
  origin :: string
  cookies :: "string \<rightharpoonup> string"

text \<open>A \<^verbatim>\<open>URL\<close> object: \<^verbatim>\<open>new URL(path, base)\<close> with an absolute path, then
  \<^verbatim>\<open>searchParams.set\<close>. The locale is taken to be a plain path segment, as the two
  routing locales are.\<close>

record url =
  urlOrigin :: string
  urlPathname :: string
  searchParams :: "(string \<times> string) list"

text \<open>The response of the i18n middleware, of which the guard reads the headers.\<close>

record response =
  status :: nat
  headers :: "string \<rightharpoonup> string"

datatype guardResult = Redirect url | PassThrough response

definition protectedRoutes :: "string list" where
  "protectedRoutes =
     [''/dashboard'', ''/projects'', ''/analytics'', ''/settings'', ''/predictions'',
      ''/schedule'', ''/stadiums'', ''/teams'', ''/leagues'', ''/leaderboard'', ''/rules'']"

definition authRoutes :: "string list" where
  "authRoutes = [''/login'', ''/signup'']"

subsection \<open>\<^verbatim>\<open>isUserAuthenticated\<close>\<close>

text \<open>\<^verbatim>\<open>JSON.parse\<close> is the platform's: it is a parameter \<open>parse\<close>, which returns the
  value or throws a \<^verbatim>\<open>SyntaxError\<close>.\<close>

datatype syntaxError = SyntaxError

text \<open>The body of the \<^verbatim>\<open>try\<close> block.\<close>

definition authStateValid ::
  "(string \<Rightarrow> syntaxError + ('n::zero) json) \<Rightarrow> string \<Rightarrow> syntaxError + bool" where
  "authStateValid parse cookieValue =
     (case parse cookieValue of
        Inl e \<Rightarrow> Inl e
      | Inr authState \<Rightarrow>
          Inr (truthy (optionalChain (optionalChain (Some authState) ''state'') ''userId'') \<and>
               truthy (optionalChain (optionalChain (Some authState) ''state'') ''accessToken'')))"

definition isUserAuthenticated ::
  "(string \<Rightarrow> syntaxError + ('n::zero) json) \<Rightarrow> request \<Rightarrow> bool" where
  "isUserAuthenticated parse request =
     (case cookies request ''accessToken'' of
        Some accessTokenCookie \<Rightarrow> True
      | None \<Rightarrow>
          (case cookies request ''porraza-auth-state'' of
             Some authStateCookie \<Rightarrow>
               (case authStateValid parse authStateCookie of
                  Inr b \<Rightarrow> b
                | Inl e \<Rightarrow> False)
           | None \<Rightarrow> False))"

subsection \<open>\<^verbatim>\<open>proxy\<close>\<close>

text \<open>\<^verbatim>\<open>pathname.replace(/^\/(en|es)/, "") || "/"\<close>: the first three characters go when
  they are \<^verbatim>\<open>/en\<close> or \<^verbatim>\<open>/es\<close>, and an empty rest becomes \<^verbatim>\<open>/\<close>.\<close>

definition stripLocale :: "string \<Rightarrow> string" where
  "stripLocale p = (if prefix ''/en'' p \<or> prefix ''/es'' p then drop 3 p else p)"

definition pathnameWithoutLocale :: "string \<Rightarrow> string" where
  "pathnameWithoutLocale p = (if stripLocale p = [] then ''/'' else stripLocale p)"

text \<open>\<^verbatim>\<open>response.headers.get(...) || routing.defaultLocale\<close>: a missing or empty header
  gives the default locale, a parameter here.\<close>

definition localeOf :: "string \<Rightarrow> response \<Rightarrow> string" where
  "localeOf defaultLocale response =
     (case headers response ''x-middleware-request-x-next-intl-locale'' of
        None \<Rightarrow> defaultLocale
      | Some l \<Rightarrow> if l = [] then defaultLocale else l)"

definition isProtectedRoute :: "string \<Rightarrow> bool" where
  "isProtectedRoute p = list_ex (\<lambda>route. prefix route p) protectedRoutes"

definition isAuthRoute :: "string \<Rightarrow> bool" where
  "isAuthRoute p = list_ex (\<lambda>route. prefix route p) authRoutes"

text \<open>The guard. \<open>handleI18nRouting\<close> is the middleware made by \<^verbatim>\<open>createIntlMiddleware\<close>
  and \<open>defaultLocale\<close> is \<^verbatim>\<open>routing.defaultLocale\<close>.\<close>

definition proxy ::
  "(string \<Rightarrow> syntaxError + ('n::zero) json) \<Rightarrow> (request \<Rightarrow> response) \<Rightarrow> string \<Rightarrow>
     request \<Rightarrow> guardResult" where
  "proxy parse handleI18nRouting defaultLocale request =
     (let response = handleI18nRouting request;
          locale = localeOf defaultLocale response;
          isAuthenticated = isUserAuthenticated parse request
      in if isProtectedRoute (pathnameWithoutLocale (pathname request)) \<and> \<not> isAuthenticated
         then Redirect \<lparr> urlOrigin = origin request,
                         urlPathname = ''/'' @ locale @ ''/login'',
                         searchParams = [(''from'', pathname request)] \<rparr>
         else if isAuthRoute (pathnameWithoutLocale (pathname request)) \<and> isAuthenticated
         then Redirect \<lparr> urlOrigin = origin request,
                         urlPathname = ''/'' @ locale @ ''/dashboard'',
                         searchParams = [] \<rparr>
         else PassThrough response)"

subsection \<open>The guard's conditions as the specification words them\<close>

text \<open>A parsed cookie value with truthy \<^verbatim>\<open>state.userId\<close> and \<^verbatim>\<open>state.accessToken\<close>
  fields: an object whose \<^verbatim>\<open>state\<close> member is an object that has both members, each
  truthy.\<close>

definition hasUserIdAndToken :: "('n::zero) json \<Rightarrow> bool" where
  "hasUserIdAndToken j \<longleftrightarrow>
     (\<exists>members stateMembers userId accessToken.
        j = JsonObject members \<and>
        map_of members ''state'' = Some (JsonObject stateMembers) \<and>
        map_of stateMembers ''userId'' = Some userId \<and> truthy (Some userId) \<and>
        map_of stateMembers ''accessToken'' = Some accessToken \<and> truthy (Some accessToken))"

text \<open>A path that starts with one of the routes of a list.\<close>

definition startsWithOneOf :: "string list \<Rightarrow> string \<Rightarrow> bool" where
  "startsWithOneOf routes p \<longleftrightarrow> (\<exists>route \<in> set routes. prefix route p)"


section \<open>Properties of the prediction form\<close>

subsection \<open>The flags in terms of the field values\<close>

lemma isValidNumber_iff: "isValidNumber v \<longleftrightarrow> (\<exists>n. v = JNum n)"
  by (cases v) (simp_all add: isValidNumber_def)

lemma strictEq_JNull_iff: "strictEq v JNull \<longleftrightarrow> v = JNull"
  by (cases v) simp_all

lemma strictEq_JNum_iff: "strictEq (JNum a) v \<longleftrightarrow> v = JNum a"
  by (cases v) auto

lemma jsLess_JNum: "jsLess (JNum a) (JNum b) \<longleftrightarrow> a < b"
  by (simp add: jsLess_def)

lemma notNull_iff: "notNull w \<longleftrightarrow> w \<noteq> None"
  by (cases w) (simp_all add: notNull_def)

lemma falsy_iff: "falsy w \<longleftrightarrow> w = None"
  by (cases w) (simp_all add: falsy_def)

lemma hasValidRegularTimeScores_iff:
  "hasValidRegularTimeScores d \<longleftrightarrow> (\<exists>h a. homeScore d = JNum h \<and> awayScore d = JNum a)"
  by (auto simp: hasValidRegularTimeScores_def isValidNumber_iff)

lemma isTied_iff: "isTied d \<longleftrightarrow> (\<exists>h. homeScore d = JNum h \<and> awayScore d = JNum h)"
  by (auto simp: isTied_def hasValidRegularTimeScores_iff strictEq_JNum_iff)

lemma hasValidETScores_iff:
  "hasValidETScores d \<longleftrightarrow> (\<exists>h a. homeScoreET d = JNum h \<and> awayScoreET d = JNum a)"
  by (auto simp: hasValidETScores_def isValidNumber_iff)

lemma isTiedInET_iff: "isTiedInET d \<longleftrightarrow> (\<exists>h. homeScoreET d = JNum h \<and> awayScoreET d = JNum h)"
  by (auto simp: isTiedInET_def hasValidETScores_iff strictEq_JNum_iff)

subsection \<open>Completeness of a draft\<close>

lemma complete_when_untied:
  assumes "\<not> isTied d"
  shows "\<not> isFormIncomplete d \<longleftrightarrow> stateB d"
  using assms
  by (auto simp: isFormIncomplete_def stateB_def hasValidRegularTimeScores_iff isTied_iff
      strictEq_JNull_iff notNull_iff)

lemma complete_when_tied:
  assumes "isTied d"
  shows "\<not> isFormIncomplete d \<longleftrightarrow> stateD d \<or> stateF d"
  using assms
  by (auto simp: isFormIncomplete_def stateD_def stateF_def hasValidRegularTimeScores_iff
      isTied_iff hasValidETScores_iff isTiedInET_iff jsLess_JNum falsy_iff notNull_iff not_less)

lemma stateB_untied: "stateB d \<Longrightarrow> \<not> isTied d"
  by (auto simp: stateB_def isTied_iff)

lemma stateD_tied: "stateD d \<Longrightarrow> isTied d"
  by (auto simp: stateD_def isTied_iff)

lemma stateF_tied: "stateF d \<Longrightarrow> isTied d"
  by (auto simp: stateF_def isTied_iff)

lemma stateD_not_stateF: "stateD d \<Longrightarrow> \<not> stateF d"
  by (auto simp: stateD_def stateF_def)

lemma complete_iff_decided: "\<not> isFormIncomplete d \<longleftrightarrow> stateB d \<or> stateD d \<or> stateF d"
  using complete_when_untied[of d] complete_when_tied[of d]
    stateB_untied[of d] stateD_tied[of d] stateF_tied[of d]
  by blast

text \<open>
  Claim C1. A draft is complete (\<^verbatim>\<open>isFormIncomplete\<close> returns false) exactly when it is in
  one of the decided states B, D or F, and no draft is in two of them. The submit button
  is enabled exactly when, moreover, no submission or save is in flight.
\<close>

theorem submit_enabled_iff_decided:
  "(\<not> isFormIncomplete d \<longleftrightarrow> stateB d \<or> stateD d \<or> stateF d) \<and>
   (\<not> submitDisabled (renderForm d isSubmitting isSaving) \<longleftrightarrow>
      (stateB d \<or> stateD d \<or> stateF d) \<and> \<not> isSubmitting \<and> \<not> isSaving) \<and>
   \<not> (stateB d \<and> stateD d) \<and> \<not> (stateB d \<and> stateF d) \<and> \<not> (stateD d \<and> stateF d)"
proof -
  have "\<not> submitDisabled (renderForm d isSubmitting isSaving) \<longleftrightarrow>
      (stateB d \<or> stateD d \<or> stateF d) \<and> \<not> isSubmitting \<and> \<not> isSaving"
    using complete_iff_decided[of d] by (simp add: renderForm_def)
  moreover have "\<not> (stateB d \<and> stateD d)" "\<not> (stateB d \<and> stateF d)"
    using stateB_untied[of d] stateD_tied[of d] stateF_tied[of d] by blast+
  moreover have "\<not> (stateD d \<and> stateF d)"
    using stateD_not_stateF[of d] by blast
  ultimately show ?thesis
    using complete_iff_decided[of d] by blast
qed

theorem submit_enabled_iff_decided_witness:
  "stateB \<lparr>homeScore = JNum (2::int), awayScore = JNum 0, homeScoreET = JNull,
            awayScoreET = JNull, penaltiesWinner = None\<rparr> \<and>
   \<not> isFormIncomplete \<lparr>homeScore = JNum (2::int), awayScore = JNum 0, homeScoreET = JNull,
            awayScoreET = JNull, penaltiesWinner = None\<rparr> \<and>
   \<not> submitDisabled (renderForm \<lparr>homeScore = JNum (2::int), awayScore = JNum 0,
            homeScoreET = JNull, awayScoreET = JNull, penaltiesWinner = None\<rparr> False False)"
proof -
  have "stateB \<lparr>homeScore = JNum (2::int), awayScore = JNum 0, homeScoreET = JNull,
            awayScoreET = JNull, penaltiesWinner = None\<rparr>"
    by (simp add: stateB_def)
  then show ?thesis
    using submit_enabled_iff_decided[of "\<lparr>homeScore = JNum (2::int), awayScore = JNum 0,
            homeScoreET = JNull, awayScoreET = JNull, penaltiesWinner = None\<rparr>" False False]
    by blast
qed

text \<open>
  Claim C4. When regular time is tied and both extra-time scores are numbers, an
  extra-time score strictly below the regular-time score of its side makes the draft
  incomplete, and the submit button is disabled.
\<close>

theorem extra_time_below_regular_blocks:
  assumes "homeScore d = JNum h" and "awayScore d = JNum a" and "h = a"
    and "homeScoreET d = JNum he" and "awayScoreET d = JNum ae"
    and "he < h \<or> ae < a"
  shows "isFormIncomplete d \<and> submitDisabled (renderForm d isSubmitting isSaving)"
proof -
  have "isTied d" "hasValidETScores d"
    using assms by (simp_all add: isTied_iff hasValidETScores_iff)
  moreover have "jsLess (homeScoreET d) (homeScore d) \<or> jsLess (awayScoreET d) (awayScore d)"
    using assms by (simp add: jsLess_JNum)
  ultimately have "isFormIncomplete d"
    by (simp add: isFormIncomplete_def isTied_def)
  then show ?thesis by (simp add: renderForm_def)
qed

theorem extra_time_below_regular_blocks_witness:
  "isFormIncomplete \<lparr>homeScore = JNum (2::int), awayScore = JNum 2, homeScoreET = JNum 3,
       awayScoreET = JNum 1, penaltiesWinner = None\<rparr> \<and>
   submitDisabled (renderForm \<lparr>homeScore = JNum (2::int), awayScore = JNum 2,
       homeScoreET = JNum 3, awayScoreET = JNum 1, penaltiesWinner = None\<rparr> False False)"
  using extra_time_below_regular_blocks[of "\<lparr>homeScore = JNum (2::int), awayScore = JNum 2,
       homeScoreET = JNum 3, awayScoreET = JNum 1, penaltiesWinner = None\<rparr>" 2 2 3 1 False False]
  by simp

text \<open>
  Claim C5. The extra-time fields are drawn exactly when both regular-time scores are
  numbers and equal; the penalty field exactly when, in addition, both extra-time scores
  are numbers and equal. With unequal regular-time scores neither is drawn, whatever the
  other fields hold.
\<close>

theorem field_visibility:
  "(extraTimeFields (renderForm d isSubmitting isSaving) \<longleftrightarrow>
      (\<exists>h. homeScore d = JNum h \<and> awayScore d = JNum h)) \<and>
   (penaltyField (renderForm d isSubmitting isSaving) \<longleftrightarrow>
      (\<exists>h. homeScore d = JNum h \<and> awayScore d = JNum h) \<and>
      (\<exists>e. homeScoreET d = JNum e \<and> awayScoreET d = JNum e)) \<and>
   (\<forall>h a. homeScore d = JNum h \<and> awayScore d = JNum a \<and> h \<noteq> a \<longrightarrow>
      \<not> extraTimeFields (renderForm d isSubmitting isSaving) \<and>
      \<not> penaltyField (renderForm d isSubmitting isSaving))"
  by (auto simp: renderForm_def showPenalties_def isTied_iff isTiedInET_iff)

theorem field_visibility_witness:
  "\<not> extraTimeFields (renderForm \<lparr>homeScore = JNum (2::int), awayScore = JNum 0,
       homeScoreET = JNum 3, awayScoreET = JNum 3, penaltiesWinner = Some Home\<rparr> False False) \<and>
   \<not> penaltyField (renderForm \<lparr>homeScore = JNum (2::int), awayScore = JNum 0,
       homeScoreET = JNum 3, awayScoreET = JNum 3, penaltiesWinner = Some Home\<rparr> False False)"
  using field_visibility[of "\<lparr>homeScore = JNum (2::int), awayScore = JNum 0,
       homeScoreET = JNum 3, awayScoreET = JNum 3, penaltiesWinner = Some Home\<rparr>" False False]
  by simp

subsection \<open>The reset effects\<close>

lemma runEffects_penalties:
  "penaltiesWinner (runEffects r prev d f) = penaltiesWinner f \<or>
   penaltiesWinner (runEffects r prev d f) = None"
  by (simp add: runEffects_def Let_def resetETAndPenalties_def resetPenaltiesAfterET_def
      clearHiddenPenalties_def)

lemma runEffects_penalties_None:
  "penaltiesWinner f = None \<Longrightarrow> penaltiesWinner (runEffects r prev d f) = None"
  using runEffects_penalties[of r prev d f] by auto

lemma runEffects_first_render:
  assumes "penaltiesWinner (runEffects r None d f) \<noteq> None"
  shows "showPenalties d"
  using assms
  by (auto simp: runEffects_def Let_def resetETAndPenalties_def resetPenaltiesAfterET_def
      clearHiddenPenalties_def depsChanged_def notNull_iff split: if_splits)

lemma runEffects_hidden:
  assumes "showPenalties p" and "\<not> showPenalties d"
  shows "penaltiesWinner (runEffects r (Some p) d f) = None"
  using assms
  by (simp add: runEffects_def Let_def depsChanged_def depsClearHidden_def
      resetETAndPenalties_def resetPenaltiesAfterET_def clearHiddenPenalties_def notNull_iff)

lemma runEffects_keeps_ET:
  assumes "\<not> hasValidRegularTimeScores d \<or> isTied d"
  shows "homeScoreET (runEffects r prev d f) = homeScoreET f \<and>
         awayScoreET (runEffects r prev d f) = awayScoreET f"
  using assms
  by (auto simp: runEffects_def Let_def resetETAndPenalties_def resetPenaltiesAfterET_def
      clearHiddenPenalties_def)

lemma attachInputs_penalties:
  "penaltiesWinner (attachInputs prev d f) = penaltiesWinner f"
  by (simp add: attachInputs_def Let_def)

lemma attachInputs_untied:
  "\<not> isTied d \<Longrightarrow> attachInputs (Some p) d f = f"
  by (simp add: attachInputs_def Let_def extraTimeInputsNew_def)

lemma penalties_after_render:
  assumes "lastRender s = Some p"
    and "penaltiesWinner (form s) \<noteq> None \<longrightarrow> showPenalties p"
    and "\<not> showPenalties (form s)"
  shows "penaltiesWinner (form (render s)) = None"
proof (cases "showPenalties p")
  case True
  with assms(1,3) show ?thesis by (simp add: render_def runEffects_hidden)
next
  case False
  with assms(2) have "penaltiesWinner (form s) = None" by simp
  then show ?thesis
    by (simp add: render_def runEffects_penalties_None attachInputs_penalties)
qed

lemma penaltiesDrawn_render:
  assumes "penaltiesDrawn s"
  shows "penaltiesDrawn (render s)"
proof -
  from assms obtain p where p: "lastRender s = Some p"
    and sh: "penaltiesWinner (form s) \<noteq> None \<longrightarrow> showPenalties p"
    by (auto simp: penaltiesDrawn_def)
  have "penaltiesWinner (form (render s)) \<noteq> None \<longrightarrow> showPenalties (form s)"
  proof (cases "showPenalties (form s)")
    case True
    then show ?thesis by simp
  next
    case False
    then show ?thesis by (simp add: penalties_after_render[OF p sh])
  qed
  then show ?thesis by (simp add: penaltiesDrawn_def render_def)
qed

lemma penaltiesDrawn_mount: "penaltiesDrawn (mount d0)"
  using runEffects_first_render[of "isTied d0" d0 "attachInputs None d0 d0"]
  by (auto simp: penaltiesDrawn_def mount_def render_def)

lemma applyEvent_keeps_penalties:
  "drawn p e \<Longrightarrow> \<not> showPenalties p \<Longrightarrow>
   penaltiesWinner (applyEvent e f) = penaltiesWinner f"
  by (cases e) auto

lemma penaltiesDrawn_event:
  assumes "penaltiesDrawn s" and "enabled s e"
  shows "penaltiesDrawn (s\<lparr>form := applyEvent e (form s)\<rparr>)"
proof -
  from assms(1) obtain p where p: "lastRender s = Some p"
    and sh: "penaltiesWinner (form s) \<noteq> None \<longrightarrow> showPenalties p"
    by (auto simp: penaltiesDrawn_def)
  from assms(2) p have "drawn p e" by (simp add: enabled_def)
  then have "penaltiesWinner (applyEvent e (form s)) \<noteq> None \<longrightarrow> showPenalties p"
    using sh applyEvent_keeps_penalties[of p e "form s"] by (cases "showPenalties p") auto
  with p show ?thesis by (simp add: penaltiesDrawn_def)
qed

lemma penaltiesDrawn_dispatch:
  assumes "penaltiesDrawn s"
  shows "penaltiesDrawn (dispatch s e)"
proof (cases "enabled s e")
  case True
  with assms have "penaltiesDrawn (render (s\<lparr>form := applyEvent e (form s)\<rparr>))"
    by (simp add: penaltiesDrawn_event penaltiesDrawn_render)
  with True show ?thesis by (simp add: dispatch_def)
next
  case False
  with assms show ?thesis by (simp add: dispatch_def)
qed

lemma reachable_penaltiesDrawn: "reachable s \<Longrightarrow> penaltiesDrawn s"
proof (induction rule: reachable.induct)
  case (mounted d0)
  show ?case by (rule penaltiesDrawn_mount)
next
  case (rerendered s)
  then show ?case by (simp add: penaltiesDrawn_render)
next
  case (dispatched s e)
  then show ?case by (simp add: penaltiesDrawn_dispatch)
qed

text \<open>Every transition is the render of a dialog that satisfies the invariant and whose
  last render is the one before.\<close>

lemma transition_is_render:
  assumes "penaltiesDrawn s" and "lastRender s = Some p"
    and "s' = render s \<or> s' = dispatch s e" and "lastRender s' = Some d" and "d \<noteq> p"
  obtains t where "s' = render t" and "form t = d" and "lastRender t = Some p"
    and "penaltiesWinner d \<noteq> None \<longrightarrow> showPenalties p"
proof (cases "s' = render s")
  case True
  with assms(4) have "form s = d" by (simp add: render_def)
  moreover from assms(1,2) have "penaltiesWinner (form s) \<noteq> None \<longrightarrow> showPenalties p"
    by (auto simp: penaltiesDrawn_def)
  ultimately show ?thesis using that[of s] True assms(2) by simp
next
  case False
  with assms(3) have s': "s' = dispatch s e" by simp
  have en: "enabled s e"
  proof (rule ccontr)
    assume "\<not> enabled s e"
    with s' have "s' = s" by (simp add: dispatch_def)
    with assms(2,4,5) show False by simp
  qed
  let ?t = "s\<lparr>form := applyEvent e (form s)\<rparr>"
  from en s' have r: "s' = render ?t" by (simp add: dispatch_def)
  with assms(4) have f: "form ?t = d" by (simp add: render_def)
  from penaltiesDrawn_event[OF assms(1) en] assms(2) f
  have "penaltiesWinner d \<noteq> None \<longrightarrow> showPenalties p"
    by (auto simp: penaltiesDrawn_def)
  with r f assms(2) show ?thesis using that[of ?t] by simp
qed

text \<open>
  Claim C2, as far as the code keeps it. Take a dialog that can arise, whose last render
  saw \<open>p\<close>, and let it render again, by itself or after an event, now seeing \<open>d\<close>; \<open>f\<close>
  is the form after that render's commit.
  \<^item> If regular time was tied in \<open>p\<close> and is not in \<open>d\<close>, in whichever way, the penalty
    winner is null in \<open>f\<close>.
  \<^item> If regular time was tied in \<open>p\<close> and in \<open>d\<close> a regular-time score is not a
    number, the extra-time scores in \<open>f\<close> are those of \<open>d\<close>: they are not reset.
  \<^item> If extra time was tied in \<open>p\<close> and is not in \<open>d\<close>, the penalty winner is null
    in \<open>f\<close>.

  Nothing is stated about the extra-time scores after the first effect has run (see
  \<open>reset_stores_zero\<close> below).
\<close>

theorem reset_cascade:
  assumes "reachable s" and "lastRender s = Some p"
    and "s' = render s \<or> s' = dispatch s e"
    and "lastRender s' = Some d" and "f = form s'"
  shows "(isTied p \<and> \<not> isTied d \<longrightarrow> penaltiesWinner f = None) \<and>
         (isTied p \<and> \<not> isTied d \<and> \<not> hasValidRegularTimeScores d \<longrightarrow>
            homeScoreET f = homeScoreET d \<and> awayScoreET f = awayScoreET d) \<and>
         (isTiedInET p \<and> \<not> isTiedInET d \<longrightarrow> penaltiesWinner f = None)"
proof (cases "d = p")
  case True
  then show ?thesis by blast
next
  case False
  have inv: "penaltiesDrawn s" using assms(1) by (rule reachable_penaltiesDrawn)
  from transition_is_render[OF inv assms(2,3,4) False]
  obtain t where t: "s' = render t" "form t = d" "lastRender t = Some p"
    and sh: "penaltiesWinner d \<noteq> None \<longrightarrow> showPenalties p"
    by blast
  have hide: "penaltiesWinner f = None" if "\<not> showPenalties d"
    using penalties_after_render[of t p] t sh that assms(5) by simp
  have a: "isTied p \<and> \<not> isTied d \<longrightarrow> penaltiesWinner f = None"
    using hide by (simp add: showPenalties_def)
  have b: "isTied p \<and> \<not> isTied d \<and> \<not> hasValidRegularTimeScores d \<longrightarrow>
            homeScoreET f = homeScoreET d \<and> awayScoreET f = awayScoreET d"
  proof (intro impI)
    assume h: "isTied p \<and> \<not> isTied d \<and> \<not> hasValidRegularTimeScores d"
    then have "attachInputs (Some p) d d = d" by (simp add: attachInputs_untied)
    with t assms(5) have "f = runEffects (extraTimeRegistered t \<or> isTied d) (Some p) d d"
      by (simp add: render_def)
    with h show "homeScoreET f = homeScoreET d \<and> awayScoreET f = awayScoreET d"
      using runEffects_keeps_ET[of d "extraTimeRegistered t \<or> isTied d" "Some p" d] by simp
  qed
  have c: "isTiedInET p \<and> \<not> isTiedInET d \<longrightarrow> penaltiesWinner f = None"
    using hide by (simp add: showPenalties_def)
  from a b c show ?thesis by blast
qed

lemmas cycle_defs =
  mount_def render_def dispatch_def enabled_def runEffects_def Let_def depsChanged_def
  depsResetET_def depsResetPenalties_def depsClearHidden_def resetETAndPenalties_def
  resetPenaltiesAfterET_def clearHiddenPenalties_def isTied_def hasValidRegularTimeScores_def
  hasValidETScores_def isTiedInET_def showPenalties_def isValidNumber_def notNull_def
  attachInputs_def attach_def fieldValueAs_def setValue_def extraTimeInputsNew_def

theorem reset_cascade_witness:
  "reachable (mount (draftOf (JNum (1::int)) (JNum 1) (JNum 1) (JNum 1) (Some Home))) \<and>
   lastRender (mount (draftOf (JNum (1::int)) (JNum 1) (JNum 1) (JNum 1) (Some Home)))
     = Some (draftOf (JNum 1) (JNum 1) (JNum 1) (JNum 1) (Some Home)) \<and>
   lastRender (dispatch (mount (draftOf (JNum (1::int)) (JNum 1) (JNum 1) (JNum 1) (Some Home)))
                 (TypeAwayScore (Some 2)))
     = Some (draftOf (JNum 1) (JNum 2) (JNum 1) (JNum 1) (Some Home)) \<and>
   isTied (draftOf (JNum (1::int)) (JNum 1) (JNum 1) (JNum 1) (Some Home)) \<and>
   \<not> isTied (draftOf (JNum (1::int)) (JNum 2) (JNum 1) (JNum 1) (Some Home)) \<and>
   penaltiesWinner (form (dispatch (mount (draftOf (JNum (1::int)) (JNum 1) (JNum 1) (JNum 1) (Some Home)))
                 (TypeAwayScore (Some 2)))) = None"
proof -
  let ?init = "draftOf (JNum (1::int)) (JNum 1) (JNum 1) (JNum 1) (Some Home)"
  let ?seen = "draftOf (JNum (1::int)) (JNum 2) (JNum 1) (JNum 1) (Some Home)"
  let ?after = "dispatch (mount ?init) (TypeAwayScore (Some 2))"
  have r: "reachable (mount ?init)" by (rule reachable.mounted)
  have m: "lastRender (mount ?init) = Some ?init" by (simp add: mount_def render_def)
  have fm: "form (mount ?init) = ?init" by (simp add: cycle_defs)
  have l: "lastRender ?after = Some ?seen"
    by (simp add: dispatch_def enabled_def m render_def fm)
  have t: "isTied ?init" "\<not> isTied ?seen"
    by (simp_all add: isTied_def hasValidRegularTimeScores_def isValidNumber_def)
  from reset_cascade[OF r m disjI2 l refl] t
  have "penaltiesWinner (form ?after) = None"
    by blast
  with r m l t show ?thesis by blast
qed

text \<open>
  The claim as the specification states it fails when the regular-time tie ends because a
  score is cleared: with 1-1 after regular time and 1-2 after extra time, emptying the
  home score ends the tie, and the extra-time scores are still 1 and 2 after the effects.
\<close>

theorem reset_cascade_counterexample:
  "isTied (draftOf (JNum (1::int)) (JNum 1) (JNum 1) (JNum 2) None) \<and>
   lastRender (mount (draftOf (JNum (1::int)) (JNum 1) (JNum 1) (JNum 2) None))
     = Some (draftOf (JNum 1) (JNum 1) (JNum 1) (JNum 2) None) \<and>
   lastRender (dispatch (mount (draftOf (JNum (1::int)) (JNum 1) (JNum 1) (JNum 2) None))
                 (TypeHomeScore None))
     = Some (draftOf JUndefined (JNum 1) (JNum 1) (JNum 2) None) \<and>
   \<not> isTied (draftOf JUndefined (JNum (1::int)) (JNum 1) (JNum 2) None) \<and>
   homeScoreET (form (dispatch (mount (draftOf (JNum (1::int)) (JNum 1) (JNum 1) (JNum 2) None))
                 (TypeHomeScore None))) = JNum 1 \<and>
   awayScoreET (form (dispatch (mount (draftOf (JNum (1::int)) (JNum 1) (JNum 1) (JNum 2) None))
                 (TypeHomeScore None))) = JNum 2"
proof -
  let ?init = "draftOf (JNum (1::int)) (JNum 1) (JNum 1) (JNum 2) None"
  let ?seen = "draftOf JUndefined (JNum (1::int)) (JNum 1) (JNum 2) None"
  let ?after = "dispatch (mount ?init) (TypeHomeScore None)"
  have m: "lastRender (mount ?init) = Some ?init" by (simp add: mount_def render_def)
  have fm: "form (mount ?init) = ?init" by (simp add: cycle_defs)
  have l: "lastRender ?after = Some ?seen"
    by (simp add: dispatch_def enabled_def m render_def fm)
  have t: "isTied ?init" "\<not> isTied ?seen"
    by (simp_all add: isTied_def hasValidRegularTimeScores_def isValidNumber_def)
  have u: "\<not> hasValidRegularTimeScores ?seen"
    by (simp add: hasValidRegularTimeScores_def isValidNumber_def)
  have f: "homeScoreET (form ?after) = JNum 1 \<and> awayScoreET (form ?after) = JNum 2"
    using l u t(2)
    by (simp add: dispatch_def enabled_def m render_def[of "_\<lparr>form := _\<rparr>"] fm
        attachInputs_untied runEffects_keeps_ET)
  from m l t f show ?thesis by simp
qed

text \<open>
  Where the first effect does run, it does not leave the extra-time fields empty, though
  its comment reads \<^verbatim>\<open>clear ET/penalties\<close>: the extra-time inputs have been drawn, so
  \<^verbatim>\<open>form.setValue("homeScoreET", null)\<close> goes through their \<^verbatim>\<open>setValueAs\<close>, and
  \<^verbatim>\<open>Number(null)\<close> is 0. With 1-1, 1-1 and a penalty winner, making the away score 2
  leaves 0 and 0 in the extra-time fields. Attaching the extra-time inputs does the same:
  a form mounted with 1-1 and no extra-time scores holds 0 and 0 for them.
\<close>

lemma reset_stores_zero:
  "form (dispatch (mount (draftOf (JNum (1::int)) (JNum 1) (JNum 1) (JNum 1) (Some Home)))
           (TypeAwayScore (Some 2)))
     = draftOf (JNum 1) (JNum 2) (JNum 0) (JNum 0) None"
proof -
  let ?init = "draftOf (JNum (1::int)) (JNum 1) (JNum 1) (JNum 1) (Some Home)"
  have "mount ?init = \<lparr>form = ?init, lastRender = Some ?init, extraTimeRegistered = True\<rparr>"
    by (simp add: cycle_defs)
  then show ?thesis
    by (simp add: cycle_defs)
qed

lemma attach_stores_zero:
  "form (mount (draftOf (JNum (1::int)) (JNum 1) JNull JNull None))
     = draftOf (JNum 1) (JNum 1) (JNum 0) (JNum 0) None"
  by (simp add: cycle_defs)

subsection \<open>Submitting\<close>

text \<open>
  Claim C7. With no prediction identifier (\<^verbatim>\<open>predictionId\<close> is \<^verbatim>\<open>null\<close>), a submission
  shows the error notice and does nothing else: the save callback is not invoked, no
  success notice is shown and the close handler is not called.
\<close>

theorem submit_without_prediction_id:
  assumes "predictionId props = None"
  shows "onSubmit props data = [ToastError ''Error'' predictionNotFound] \<and>
         (\<forall>phase ms. OnSave phase ms \<notin> set (onSubmit props data)) \<and>
         (\<forall>title description. ToastSuccess title description \<notin> set (onSubmit props data)) \<and>
         OnClose \<notin> set (onSubmit props data)"
  using assms by (simp add: onSubmit_def noPredictionId_def)

theorem submit_without_prediction_id_witness:
  "onSubmit
     \<lparr>homeTeamName = ''Spain'', awayTeamName = ''Brazil'', predictionId = None,
      onSave = (\<lambda>phase ms. Resolved)\<rparr>
     \<lparr>homeScore = JNum (2::int), awayScore = JNum 0, homeScoreET = JNull, awayScoreET = JNull,
      penaltiesWinner = None, matchId = ''m73'', homeTeamId = ''esp'', awayTeamId = ''bra''\<rparr>
   = [ToastError ''Error'' predictionNotFound]"
  using submit_without_prediction_id[of
     "\<lparr>homeTeamName = ''Spain'', awayTeamName = ''Brazil'', predictionId = None,
      onSave = (\<lambda>phase ms. Resolved)\<rparr>"
     "\<lparr>homeScore = JNum (2::int), awayScore = JNum 0, homeScoreET = JNull, awayScoreET = JNull,
      penaltiesWinner = None, matchId = ''m73'', homeTeamId = ''esp'', awayTeamId = ''bra''\<rparr>"]
  by simp

text \<open>
  Claim C8, as the code has it. When the save callback rejects, the submission ends with
  one error notice whose description is the message of the rejection whenever that is an
  \<^verbatim>\<open>Error\<close> instance (verbatim, an empty message included) and the fallback text when it
  is any other value; the close handler is not called and no success notice is shown.
\<close>

theorem save_rejection_notice:
  assumes "\<not> noPredictionId (predictionId props)"
    and "onSave props ''ROUND_OF_32'' [toMatchPrediction data] = Rejected err"
  shows "onSubmit props data =
           [OnSave ''ROUND_OF_32'' [toMatchPrediction data],
            ConsoleError ''[KnockoutMatchDialog] Error saving prediction:'' err,
            ToastError ''Error al guardar''
              (case err of ErrorInstance message \<Rightarrow> message | OtherValue \<Rightarrow> couldNotSave)] \<and>
         OnClose \<notin> set (onSubmit props data) \<and>
         (\<forall>title description. ToastSuccess title description \<notin> set (onSubmit props data))"
  using assms by (simp add: onSubmit_def Let_def errorDescription_def)

theorem save_rejection_notice_witness:
  "onSubmit
     \<lparr>homeTeamName = ''Spain'', awayTeamName = ''Brazil'', predictionId = Some ''p1'',
      onSave = (\<lambda>phase ms. Rejected (ErrorInstance ''Network down''))\<rparr>
     \<lparr>homeScore = JNum (2::int), awayScore = JNum 0, homeScoreET = JNull, awayScoreET = JNull,
      penaltiesWinner = None, matchId = ''m73'', homeTeamId = ''esp'', awayTeamId = ''bra''\<rparr>
   = [OnSave ''ROUND_OF_32''
        [\<lparr>homeScore = JNum 2, awayScore = JNum 0, homeScoreET = JNull, awayScoreET = JNull,
          penaltiesWinner = None, matchId = ''m73'', homeTeamId = ''esp'', awayTeamId = ''bra''\<rparr>],
      ConsoleError ''[KnockoutMatchDialog] Error saving prediction:'' (ErrorInstance ''Network down''),
      ToastError ''Error al guardar'' ''Network down'']"
  using save_rejection_notice[of
     "\<lparr>homeTeamName = ''Spain'', awayTeamName = ''Brazil'', predictionId = Some ''p1'',
      onSave = (\<lambda>phase ms. Rejected (ErrorInstance ''Network down''))\<rparr>"
     "\<lparr>homeScore = JNum (2::int), awayScore = JNum 0, homeScoreET = JNull, awayScoreET = JNull,
      penaltiesWinner = None, matchId = ''m73'', homeTeamId = ''esp'', awayTeamId = ''bra''\<rparr>"
     "ErrorInstance ''Network down''"]
  by (simp add: noPredictionId_def toMatchPrediction_def orNull_def)

text \<open>
  The claim as the specification states it promises the fallback text for every rejection
  that is not an \<^verbatim>\<open>Error\<close> with a message. It fails for an \<^verbatim>\<open>Error\<close> whose message is
  empty, such as \<^verbatim>\<open>new Error()\<close>: the notice carries the empty message, not the fallback
  text.
\<close>

theorem save_rejection_notice_counterexample:
  "onSubmit
     \<lparr>homeTeamName = ''Spain'', awayTeamName = ''Brazil'', predictionId = Some ''p1'',
      onSave = (\<lambda>phase ms. Rejected (ErrorInstance []))\<rparr>
     \<lparr>homeScore = JNum (2::int), awayScore = JNum 0, homeScoreET = JNull, awayScoreET = JNull,
      penaltiesWinner = None, matchId = ''m73'', homeTeamId = ''esp'', awayTeamId = ''bra''\<rparr>
   = [OnSave ''ROUND_OF_32''
        [\<lparr>homeScore = JNum 2, awayScore = JNum 0, homeScoreET = JNull, awayScoreET = JNull,
          penaltiesWinner = None, matchId = ''m73'', homeTeamId = ''esp'', awayTeamId = ''bra''\<rparr>],
      ConsoleError ''[KnockoutMatchDialog] Error saving prediction:'' (ErrorInstance []),
      ToastError ''Error al guardar'' []] \<and>
   couldNotSave \<noteq> []"
  by (simp add: onSubmit_def Let_def noPredictionId_def toMatchPrediction_def orNull_def
      errorDescription_def couldNotSave_def)

section \<open>Properties of the bracket and the predictions page\<close>

lemma greaterSide_cases:
  "(greaterSide x y = ''home'' \<longleftrightarrow> y < x) \<and>
   (greaterSide x y = ''away'' \<longleftrightarrow> x < y) \<and>
   (greaterSide x y = ''draw'' \<longleftrightarrow> x = y)"
  by (auto simp: greaterSide_def)

text \<open>
  Claim C6. For a prediction record: a set (non-empty) penalty winner is returned as it
  is; otherwise, when both extra-time scores are present, the side with the greater
  extra-time score; otherwise the side with the greater regular-time score; and
  \<^verbatim>\<open>draw\<close> when the scores compared are equal.
\<close>

theorem match_winner_lookup:
  fixes p :: "('n::linorder) userMatchPrediction"
  shows
  "(\<forall>w. up_penaltiesWinner p = Some w \<and> w \<noteq> [] \<longrightarrow> getMatchWinner (Some p) = Some w) \<and>
   (\<not> truthyString (up_penaltiesWinner p) \<longrightarrow>
      (\<forall>he ae. up_homeScoreET p = Some he \<and> up_awayScoreET p = Some ae \<longrightarrow>
         getMatchWinner (Some p) = Some (greaterSide he ae))) \<and>
   (\<not> truthyString (up_penaltiesWinner p) \<and>
    (up_homeScoreET p = None \<or> up_awayScoreET p = None) \<longrightarrow>
      getMatchWinner (Some p) = Some (greaterSide (up_homeScore p) (up_awayScore p))) \<and>
   (\<forall>(x::'n) y. (greaterSide x y = ''home'' \<longleftrightarrow> y < x) \<and>
                 (greaterSide x y = ''away'' \<longleftrightarrow> x < y) \<and>
                 (greaterSide x y = ''draw'' \<longleftrightarrow> x = y))"
proof -
  have pen: "\<forall>w. up_penaltiesWinner p = Some w \<and> w \<noteq> [] \<longrightarrow> getMatchWinner (Some p) = Some w"
    by (simp add: getMatchWinner_def truthyString_def)
  have et: "\<not> truthyString (up_penaltiesWinner p) \<longrightarrow>
      (\<forall>he ae. up_homeScoreET p = Some he \<and> up_awayScoreET p = Some ae \<longrightarrow>
         getMatchWinner (Some p) = Some (greaterSide he ae))"
    by (auto simp: getMatchWinner_def greaterSide_def)
  have reg: "\<not> truthyString (up_penaltiesWinner p) \<and>
    (up_homeScoreET p = None \<or> up_awayScoreET p = None) \<longrightarrow>
      getMatchWinner (Some p) = Some (greaterSide (up_homeScore p) (up_awayScore p))"
    by (auto simp: getMatchWinner_def greaterSide_def split: option.splits)
  from pen et reg greaterSide_cases show ?thesis by blast
qed

theorem match_winner_lookup_witness:
  "getMatchWinner (Some \<lparr>up_id = Some ''k1'', up_homeScore = (1::int), up_awayScore = 1,
      up_homeScoreET = Some 1, up_awayScoreET = Some 2, up_penaltiesWinner = None\<rparr>)
     = Some ''away'' \<and>
   getMatchWinner (Some \<lparr>up_id = Some ''k2'', up_homeScore = (0::int), up_awayScore = 0,
      up_homeScoreET = Some 1, up_awayScoreET = Some 1, up_penaltiesWinner = Some ''home''\<rparr>)
     = Some ''home''"
proof -
  let ?et = "\<lparr>up_id = Some ''k1'', up_homeScore = (1::int), up_awayScore = 1,
      up_homeScoreET = Some 1, up_awayScoreET = Some 2, up_penaltiesWinner = None\<rparr>"
  let ?pen = "\<lparr>up_id = Some ''k2'', up_homeScore = (0::int), up_awayScore = 0,
      up_homeScoreET = Some 1, up_awayScoreET = Some 1, up_penaltiesWinner = Some ''home''\<rparr>"
  have "getMatchWinner (Some ?et) = Some (greaterSide (1::int) 2)"
    using match_winner_lookup[of ?et] by (simp add: truthyString_def)
  moreover have "greaterSide (1::int) 2 = ''away''"
    using match_winner_lookup[of ?et] by simp
  moreover have "getMatchWinner (Some ?pen) = Some ''home''"
    using match_winner_lookup[of ?pen] by simp
  ultimately show ?thesis by simp
qed

lemma allGroupPredictionsCompleted_iff:
  "allGroupPredictionsCompleted matches \<longleftrightarrow>
     (\<forall>m \<in> set matches. up_id (userPrediction m) \<noteq> None)"
  by (simp add: allGroupPredictionsCompleted_def hasPrediction_def list_all_iff)

text \<open>
  Claim C10. The knockout and awards tabs are disabled exactly when some match's
  prediction has a null identifier; then the knockout tab holds the locked placeholder
  with the number of matches that have an identifier and the number of matches, and not
  the bracket. With every identifier present the placeholder is not shown, and with no
  matches at all the tabs are enabled.
\<close>

theorem knockout_locked_until_groups_complete:
  "(knockoutTabDisabled (predictionsPageContent matches ko) \<longleftrightarrow>
      \<not> (\<forall>m \<in> set matches. up_id (userPrediction m) \<noteq> None)) \<and>
   (awardsTabDisabled (predictionsPageContent matches ko) \<longleftrightarrow>
      \<not> (\<forall>m \<in> set matches. up_id (userPrediction m) \<noteq> None)) \<and>
   (\<not> (\<forall>m \<in> set matches. up_id (userPrediction m) \<noteq> None) \<longrightarrow>
      knockoutContent (predictionsPageContent matches ko) =
        LockedProgress (length (filter (\<lambda>m. up_id (userPrediction m) \<noteq> None) matches))
                       (length matches)) \<and>
   ((\<forall>m \<in> set matches. up_id (userPrediction m) \<noteq> None) \<longrightarrow>
      knockoutContent (predictionsPageContent matches ko) = KnockoutBracket \<or>
      knockoutContent (predictionsPageContent matches ko) = PairingsPending) \<and>
   (matches = [] \<longrightarrow>
      \<not> knockoutTabDisabled (predictionsPageContent matches ko) \<and>
      \<not> awardsTabDisabled (predictionsPageContent matches ko))"
proof -
  have f: "filter hasPrediction matches = filter (\<lambda>m. up_id (userPrediction m) \<noteq> None) matches"
    by (rule filter_cong) (simp_all add: hasPrediction_def)
  show ?thesis
    unfolding allGroupPredictionsCompleted_iff[symmetric]
    by (auto simp: predictionsPageContent_def completedMatches_def totalMatches_def f
        allGroupPredictionsCompleted_def split: option.splits)
qed

theorem knockout_locked_until_groups_complete_witness:
  "knockoutTabDisabled (predictionsPageContent
     [\<lparr>userPrediction = \<lparr>up_id = Some ''a1'', up_homeScore = (1::int), up_awayScore = 0,
         up_homeScoreET = None, up_awayScoreET = None, up_penaltiesWinner = None\<rparr>\<rparr>,
      \<lparr>userPrediction = \<lparr>up_id = None, up_homeScore = 0, up_awayScore = 0,
         up_homeScoreET = None, up_awayScoreET = None, up_penaltiesWinner = None\<rparr>\<rparr>]
     (Some \<lparr>roundOf32 = [''match73'']\<rparr>)) \<and>
   knockoutContent (predictionsPageContent
     [\<lparr>userPrediction = \<lparr>up_id = Some ''a1'', up_homeScore = (1::int), up_awayScore = 0,
         up_homeScoreET = None, up_awayScoreET = None, up_penaltiesWinner = None\<rparr>\<rparr>,
      \<lparr>userPrediction = \<lparr>up_id = None, up_homeScore = 0, up_awayScore = 0,
         up_homeScoreET = None, up_awayScoreET = None, up_penaltiesWinner = None\<rparr>\<rparr>]
     (Some \<lparr>roundOf32 = [''match73'']\<rparr>)) = LockedProgress 1 2"
  using knockout_locked_until_groups_complete[of
     "[\<lparr>userPrediction = \<lparr>up_id = Some ''a1'', up_homeScore = (1::int), up_awayScore = 0,
         up_homeScoreET = None, up_awayScoreET = None, up_penaltiesWinner = None\<rparr>\<rparr>,
      \<lparr>userPrediction = \<lparr>up_id = None, up_homeScore = 0, up_awayScore = 0,
         up_homeScoreET = None, up_awayScoreET = None, up_penaltiesWinner = None\<rparr>\<rparr>]"
     "Some \<lparr>roundOf32 = [''match73'']\<rparr>"]
  by simp

section \<open>Properties of the route guard\<close>

lemma truthy_state_member:
  "truthy (optionalChain (optionalChain (Some j) ''state'') key) \<longleftrightarrow>
     (\<exists>members stateMembers v.
        j = JsonObject members \<and> map_of members ''state'' = Some (JsonObject stateMembers) \<and>
        map_of stateMembers key = Some v \<and> truthy (Some v))"
proof (cases j)
  case (JsonObject members)
  show ?thesis
  proof (cases "map_of members ''state''")
    case None
    with JsonObject show ?thesis by simp
  next
    case (Some st)
    with JsonObject show ?thesis
      by (cases st; cases "getProperty st key") auto
  qed
qed simp_all

lemma authStateValid_iff:
  "authStateValid parse v = Inr True \<longleftrightarrow> (\<exists>j. parse v = Inr j \<and> hasUserIdAndToken j)"
proof (cases "parse v")
  case (Inl e)
  then show ?thesis by (simp add: authStateValid_def)
next
  case (Inr j)
  have "truthy (optionalChain (optionalChain (Some j) ''state'') ''userId'') \<and>
        truthy (optionalChain (optionalChain (Some j) ''state'') ''accessToken'')
        \<longleftrightarrow> hasUserIdAndToken j"
    unfolding truthy_state_member hasUserIdAndToken_def by auto
  with Inr show ?thesis by (simp add: authStateValid_def)
qed

lemma authStateValid_cases:
  "authStateValid parse v = Inr True \<or> authStateValid parse v = Inr False \<or>
   (\<exists>e. parse v = Inl e \<and> authStateValid parse v = Inl e)"
  by (cases "parse v") (auto simp: authStateValid_def)

text \<open>
  Claim C9. With an \<^verbatim>\<open>accessToken\<close> cookie the check is true whatever the cookie's
  value. Without it, and with a \<^verbatim>\<open>porraza-auth-state\<close> cookie, the check is true exactly
  when the cookie's value parses to JSON with truthy \<^verbatim>\<open>state.userId\<close> and
  \<^verbatim>\<open>state.accessToken\<close>; when parsing throws, the check is false. With neither cookie it
  is false.
\<close>

theorem authentication_check:
  "(\<forall>token. cookies request ''accessToken'' = Some token \<longrightarrow>
      isUserAuthenticated parse request) \<and>
   (\<forall>v. cookies request ''accessToken'' = None \<and>
        cookies request ''porraza-auth-state'' = Some v \<longrightarrow>
      (isUserAuthenticated parse request \<longleftrightarrow> (\<exists>j. parse v = Inr j \<and> hasUserIdAndToken j)) \<and>
      (parse v = Inl SyntaxError \<longrightarrow> \<not> isUserAuthenticated parse request)) \<and>
   (cookies request ''accessToken'' = None \<and> cookies request ''porraza-auth-state'' = None \<longrightarrow>
      \<not> isUserAuthenticated parse request)"
proof -
  have a: "\<forall>token. cookies request ''accessToken'' = Some token \<longrightarrow>
      isUserAuthenticated parse request"
    by (simp add: isUserAuthenticated_def)
  have b: "isUserAuthenticated parse request \<longleftrightarrow> (\<exists>j. parse v = Inr j \<and> hasUserIdAndToken j)"
    if "cookies request ''accessToken'' = None" "cookies request ''porraza-auth-state'' = Some v"
    for v
    using that authStateValid_iff[of parse v] authStateValid_cases[of parse v]
    by (auto simp: isUserAuthenticated_def)
  have c: "cookies request ''accessToken'' = None \<and>
           cookies request ''porraza-auth-state'' = None \<longrightarrow>
           \<not> isUserAuthenticated parse request"
    by (simp add: isUserAuthenticated_def)
  from a b c show ?thesis by auto
qed

theorem authentication_check_witness:
  "\<not> isUserAuthenticated (\<lambda>text. Inl SyntaxError :: syntaxError + int json)
       \<lparr>pathname = ''/dashboard'', origin = ''https://porraza.example'',
        cookies = [''porraza-auth-state'' \<mapsto> ''{not json'']\<rparr> \<and>
   isUserAuthenticated
       (\<lambda>text. Inr (JsonObject [(''state'', JsonObject [(''userId'', JsonString ''u1''),
                                                        (''accessToken'', JsonString ''t1'')])])
                 :: syntaxError + int json)
       \<lparr>pathname = ''/dashboard'', origin = ''https://porraza.example'',
        cookies = [''porraza-auth-state'' \<mapsto> ''cookie text'']\<rparr>"
proof -
  have "\<not> isUserAuthenticated (\<lambda>text. Inl SyntaxError :: syntaxError + int json)
       \<lparr>pathname = ''/dashboard'', origin = ''https://porraza.example'',
        cookies = [''porraza-auth-state'' \<mapsto> ''{not json'']\<rparr>"
    using authentication_check[of
       "\<lparr>pathname = ''/dashboard'', origin = ''https://porraza.example'',
        cookies = [''porraza-auth-state'' \<mapsto> ''{not json'']\<rparr>"
       "\<lambda>text. Inl SyntaxError :: syntaxError + int json"]
    by simp
  moreover have "hasUserIdAndToken
       (JsonObject [(''state'', JsonObject [(''userId'', JsonString ''u1''),
                                            (''accessToken'', JsonString ''t1'')])] :: int json)"
    by (simp add: hasUserIdAndToken_def)
  then have "isUserAuthenticated
       (\<lambda>text. Inr (JsonObject [(''state'', JsonObject [(''userId'', JsonString ''u1''),
                                                        (''accessToken'', JsonString ''t1'')])])
                 :: syntaxError + int json)
       \<lparr>pathname = ''/dashboard'', origin = ''https://porraza.example'',
        cookies = [''porraza-auth-state'' \<mapsto> ''cookie text'']\<rparr>"
    using authentication_check[of
       "\<lparr>pathname = ''/dashboard'', origin = ''https://porraza.example'',
        cookies = [''porraza-auth-state'' \<mapsto> ''cookie text'']\<rparr>"
       "\<lambda>text. Inr (JsonObject [(''state'', JsonObject [(''userId'', JsonString ''u1''),
                                                        (''accessToken'', JsonString ''t1'')])])
                 :: syntaxError + int json"]
    by simp
  ultimately show ?thesis by simp
qed

lemma isProtectedRoute_iff: "isProtectedRoute p \<longleftrightarrow> startsWithOneOf protectedRoutes p"
  by (simp add: isProtectedRoute_def startsWithOneOf_def list_ex_iff)

lemma isAuthRoute_iff: "isAuthRoute p \<longleftrightarrow> startsWithOneOf authRoutes p"
  by (simp add: isAuthRoute_def startsWithOneOf_def list_ex_iff)

text \<open>
  Claim C3. Let \<open>p\<close> be the path without its locale prefix, \<open>locale\<close> the locale of the
  i18n response and \<open>auth\<close> the result of the authentication check.
  \<^item> If \<open>p\<close> starts with a protected route and \<open>auth\<close> is false, the guard redirects to
    \<^verbatim>\<open>/<locale>/login\<close> with the single query parameter \<^verbatim>\<open>from\<close> set to the request's
    path as it came.
  \<^item> If \<open>p\<close> starts with an auth route and \<open>auth\<close> is true, the guard redirects to
    \<^verbatim>\<open>/<locale>/dashboard\<close>.
  \<^item> Otherwise the guard returns the i18n response itself.
\<close>

theorem route_guard:
  assumes "p = pathnameWithoutLocale (pathname request)"
    and "locale = localeOf defaultLocale (handleI18nRouting request)"
    and "auth = isUserAuthenticated parse request"
  shows "(startsWithOneOf protectedRoutes p \<and> \<not> auth \<longrightarrow>
            proxy parse handleI18nRouting defaultLocale request =
              Redirect \<lparr>urlOrigin = origin request, urlPathname = ''/'' @ locale @ ''/login'',
                        searchParams = [(''from'', pathname request)]\<rparr>) \<and>
         (startsWithOneOf authRoutes p \<and> auth \<longrightarrow>
            proxy parse handleI18nRouting defaultLocale request =
              Redirect \<lparr>urlOrigin = origin request, urlPathname = ''/'' @ locale @ ''/dashboard'',
                        searchParams = []\<rparr>) \<and>
         (\<not> (startsWithOneOf protectedRoutes p \<and> \<not> auth) \<and>
          \<not> (startsWithOneOf authRoutes p \<and> auth) \<longrightarrow>
            proxy parse handleI18nRouting defaultLocale request =
              PassThrough (handleI18nRouting request))"
  using assms
  by (simp add: proxy_def Let_def isProtectedRoute_iff isAuthRoute_iff)

theorem route_guard_witness:
  "proxy (\<lambda>text. Inl SyntaxError :: syntaxError + int json)
     (\<lambda>r. \<lparr>status = 200, headers = [''x-middleware-request-x-next-intl-locale'' \<mapsto> ''es'']\<rparr>)
     ''es''
     \<lparr>pathname = ''/dashboard'', origin = ''https://porraza.example'', cookies = Map.empty\<rparr>
   = Redirect \<lparr>urlOrigin = ''https://porraza.example'', urlPathname = ''/es/login'',
               searchParams = [(''from'', ''/dashboard'')]\<rparr> \<and>
   proxy (\<lambda>text. Inl SyntaxError :: syntaxError + int json)
     (\<lambda>r. \<lparr>status = 200, headers = [''x-middleware-request-x-next-intl-locale'' \<mapsto> ''en'']\<rparr>)
     ''es''
     \<lparr>pathname = ''/en/login'', origin = ''https://porraza.example'',
      cookies = [''accessToken'' \<mapsto> ''abc'']\<rparr>
   = Redirect \<lparr>urlOrigin = ''https://porraza.example'', urlPathname = ''/en/dashboard'',
               searchParams = []\<rparr>"
proof -
  let ?parse = "\<lambda>text. Inl SyntaxError :: syntaxError + int json"
  let ?i18nEs = "\<lambda>r::request.
     \<lparr>status = 200, headers = [''x-middleware-request-x-next-intl-locale'' \<mapsto> ''es'']\<rparr>"
  let ?i18nEn = "\<lambda>r::request.
     \<lparr>status = 200, headers = [''x-middleware-request-x-next-intl-locale'' \<mapsto> ''en'']\<rparr>"
  let ?anonymous =
    "\<lparr>pathname = ''/dashboard'', origin = ''https://porraza.example'', cookies = Map.empty\<rparr>"
  let ?signedIn =
    "\<lparr>pathname = ''/en/login'', origin = ''https://porraza.example'',
      cookies = [''accessToken'' \<mapsto> ''abc'']\<rparr>"
  have p1: "startsWithOneOf protectedRoutes (pathnameWithoutLocale (pathname ?anonymous))"
    by (simp add: startsWithOneOf_def protectedRoutes_def pathnameWithoutLocale_def
        stripLocale_def)
  have a1: "\<not> isUserAuthenticated ?parse ?anonymous"
    by (simp add: isUserAuthenticated_def)
  have l1: "localeOf ''es'' (?i18nEs ?anonymous) = ''es''"
    by (simp add: localeOf_def)
  have p2: "startsWithOneOf authRoutes (pathnameWithoutLocale (pathname ?signedIn))"
    by (simp add: startsWithOneOf_def authRoutes_def pathnameWithoutLocale_def stripLocale_def)
  have a2: "isUserAuthenticated ?parse ?signedIn"
    by (simp add: isUserAuthenticated_def)
  have l2: "localeOf ''es'' (?i18nEn ?signedIn) = ''en''"
    by (simp add: localeOf_def)
  have "proxy ?parse ?i18nEs ''es'' ?anonymous =
          Redirect \<lparr>urlOrigin = ''https://porraza.example'', urlPathname = ''/es/login'',
                    searchParams = [(''from'', ''/dashboard'')]\<rparr>"
    using route_guard[where parse = ?parse and handleI18nRouting = ?i18nEs
        and defaultLocale = "''es''" and request = ?anonymous, OF refl refl refl] p1 a1 l1
    by simp
  moreover have "proxy ?parse ?i18nEn ''es'' ?signedIn =
          Redirect \<lparr>urlOrigin = ''https://porraza.example'', urlPathname = ''/en/dashboard'',
                    searchParams = []\<rparr>"
    using route_guard[where parse = ?parse and handleI18nRouting = ?i18nEn
        and defaultLocale = "''es''" and request = ?signedIn, OF refl refl refl] p2 a2 l2
    by simp
  ultimately show ?thesis by simp
qed

subsection \<open>What stripping the locale means for the routes\<close>

text \<open>The pattern \<^verbatim>\<open>/^\/(en|es)/\<close> does not look for the end of the segment, but no route
  begins with \<^verbatim>\<open>/e\<close>: a stripped path starts with a route exactly when the path starts
  with the route, bare or after \<^verbatim>\<open>/en\<close> or \<^verbatim>\<open>/es\<close>.\<close>

lemma prefix_pathnameWithoutLocale:
  assumes "route = CHR ''/'' # c # rest" and "c \<noteq> CHR ''e''"
  shows "prefix route (pathnameWithoutLocale p) \<longleftrightarrow>
           prefix route p \<or> prefix (''/en'' @ route) p \<or> prefix (''/es'' @ route) p"
proof (cases "prefix ''/en'' p \<or> prefix ''/es'' p")
  case True
  then have "\<exists>l q. p = l @ q \<and> (l = ''/en'' \<or> l = ''/es'')"
    unfolding prefix_def by blast
  then obtain l q where p: "p = l @ q" and l: "l = ''/en'' \<or> l = ''/es''"
    by blast
  from True p l have s: "stripLocale p = q" by (auto simp: stripLocale_def)
  have "prefix route (pathnameWithoutLocale p) \<longleftrightarrow> prefix route q"
    using assms s by (simp add: pathnameWithoutLocale_def)
  moreover have "\<not> prefix route p"
    using assms p l by auto
  moreover have "prefix (''/en'' @ route) p \<or> prefix (''/es'' @ route) p \<longleftrightarrow> prefix route q"
    using p l by auto
  ultimately show ?thesis by blast
next
  case False
  then have s: "stripLocale p = p" by (simp add: stripLocale_def)
  have "prefix route (pathnameWithoutLocale p) \<longleftrightarrow> prefix route p"
    using assms s by (simp add: pathnameWithoutLocale_def)
  moreover have "\<not> prefix (''/en'' @ route) p" "\<not> prefix (''/es'' @ route) p"
    using False by (auto simp: prefix_def)
  ultimately show ?thesis by blast
qed

lemma route_shape:
  assumes "route \<in> set protectedRoutes \<union> set authRoutes"
  shows "\<exists>c rest. route = CHR ''/'' # c # rest \<and> c \<noteq> CHR ''e''"
  using assms by (auto simp: protectedRoutes_def authRoutes_def)

lemma startsWithOneOf_pathnameWithoutLocale:
  assumes "set routes \<subseteq> set protectedRoutes \<union> set authRoutes"
  shows "startsWithOneOf routes (pathnameWithoutLocale p) \<longleftrightarrow>
           (\<exists>route \<in> set routes.
              prefix route p \<or> prefix (''/en'' @ route) p \<or> prefix (''/es'' @ route) p)"
proof -
  have "prefix route (pathnameWithoutLocale p) \<longleftrightarrow>
          prefix route p \<or> prefix (''/en'' @ route) p \<or> prefix (''/es'' @ route) p"
    if "route \<in> set routes" for route
  proof -
    from that assms obtain c rest where "route = CHR ''/'' # c # rest" "c \<noteq> CHR ''e''"
      using route_shape[of route] by blast
    then show ?thesis by (rule prefix_pathnameWithoutLocale)
  qed
  then show ?thesis unfolding startsWithOneOf_def by blast
qed

end
